theory Spec2Isabelle
  imports Complex_Main "HOL-Library.Multiset"
begin

section \<open>Errors\<close>

text \<open>The exceptions of Python, of \<^verbatim>\<open>clip\<close> and of \<^verbatim>\<open>torch\<close> that the notebook can meet.\<close>

datatype error = ValueError | IndexError | RuntimeError

section \<open>The tensor library\<close>

text \<open>
  The notebook computes on torch tensors of floating-point numbers. What torch does to
  the numbers (rounding, underflow, the order of a summation, the precision of a
  reduction) is not written in the notebook, so the operations it calls are
  collaborators on an arbitrary type \<open>'a\<close> of entries, and nothing is assumed of them:
  \<^item> \<open>ew_div x s\<close> is one entry of \<^verbatim>\<open>t / s\<close> (and of \<^verbatim>\<open>t /= s\<close>);
  \<^item> \<open>scalar_mul c x\<close> is one entry of \<^verbatim>\<open>c * t\<close> for a Python float \<open>c\<close>;
  \<^item> \<open>row_norm r\<close> is the entry of \<^verbatim>\<open>t.norm(dim=-1, keepdim=True)\<close> for the row \<open>r\<close>;
  \<^item> \<open>vec_norm v\<close> is \<^verbatim>\<open>v.norm()\<close> for a 1-D tensor;
  \<^item> \<open>mean_of xs\<close> is one entry of \<^verbatim>\<open>t.mean(dim=0)\<close>, \<open>xs\<close> being the column it averages;
  \<^item> \<open>dot u v\<close> is one entry of a matrix product \<^verbatim>\<open>u @ m\<close>, \<open>v\<close> being the column of \<^verbatim>\<open>m\<close>;
  \<^item> \<open>to_float32 x\<close> is one entry of \<^verbatim>\<open>t.type(torch.float32)\<close>;
  \<^item> \<open>softmax_entry xs j\<close> is entry \<open>j\<close> of \<^verbatim>\<open>softmax(dim=-1)\<close> of the row \<open>xs\<close>;
  \<^item> \<open>topk1 xs\<close> is \<^verbatim>\<open>topk(1)\<close> on the row \<open>xs\<close>: the value and the index it selects.
  A 1-D tensor is the list of its entries.
\<close>

record 'a torch =
  ew_div :: "'a \<Rightarrow> 'a \<Rightarrow> 'a"
  scalar_mul :: "real \<Rightarrow> 'a \<Rightarrow> 'a"
  row_norm :: "'a list \<Rightarrow> 'a"
  vec_norm :: "'a list \<Rightarrow> 'a"
  mean_of :: "'a list \<Rightarrow> 'a"
  dot :: "'a list \<Rightarrow> 'a list \<Rightarrow> 'a"
  to_float32 :: "'a \<Rightarrow> 'a"
  softmax_entry :: "'a list \<Rightarrow> nat \<Rightarrow> 'a"
  topk1 :: "'a list \<Rightarrow> error + 'a \<times> nat"

text \<open>
  A 2-D tensor carries its shape, so that a tensor without rows still has its number of
  columns; \<open>rows\<close> are its \<open>dim_rows\<close> rows of \<open>dim_cols\<close> entries.
\<close>

record 'a matrix =
  dim_rows :: nat
  dim_cols :: nat
  rows :: "'a list list"

definition column :: "nat \<Rightarrow> 'a matrix \<Rightarrow> 'a list" where
  "column i M = map (\<lambda>row. row ! i) (rows M)"

text \<open>
  \<^verbatim>\<open>torch.stack(ws, dim=1)\<close> of L tensors of shape (D,): the (D, L) tensor whose
  column i is \<open>ws ! i\<close>; torch raises a RuntimeError on an empty list.
\<close>

definition stack_dim1 :: "nat \<Rightarrow> 'a list list \<Rightarrow> error + 'a matrix" where
  "stack_dim1 D ws =
     (if ws = [] then Inl RuntimeError
      else Inr \<lparr> dim_rows = D, dim_cols = length ws,
                 rows = map (\<lambda>d. map (\<lambda>w. w ! d) ws) [0..<D] \<rparr>)"

text \<open>
  \<^verbatim>\<open>v @ M\<close> for v of shape (1, D') and M of shape (D, L): a RuntimeError unless
  D' = D, else the L products of v with the columns of M.
\<close>

definition matmul_row ::
  "('a, 'z) torch_scheme \<Rightarrow> 'a list \<Rightarrow> 'a matrix \<Rightarrow> error + 'a list" where
  "matmul_row lib v M =
     (if length v \<noteq> dim_rows M then Inl RuntimeError
      else Inr (map (\<lambda>j. dot lib v (column j M)) [0..<dim_cols M]))"

section \<open>Rendering a template\<close>

text \<open>
  \<^verbatim>\<open>template.format(classname)\<close> is Python's. \<open>format_from\<close> describes it, for one
  positional argument, on the templates made of literal text, the escaped braces
  \<^verbatim>\<open>{{\<close> and \<^verbatim>\<open>}}\<close> and the automatically numbered field \<^verbatim>\<open>{}\<close>, scanned left to
  right as Python does: a field takes the next argument (IndexError once the index passes
  the single argument), a lone brace is a ValueError, and the first failure is the
  result. \<open>n\<close> is the number of fields already rendered. A field with a name, an index,
  a conversion or a format spec is not described: the answer is \<open>None\<close> when the scan
  reaches one.
\<close>

fun emit :: "string \<Rightarrow> (error + string) option \<Rightarrow> (error + string) option" where
  "emit s None = None"
| "emit s (Some (Inl e)) = Some (Inl e)"
| "emit s (Some (Inr r)) = Some (Inr (s @ r))"

fun format_from :: "nat \<Rightarrow> string \<Rightarrow> string \<Rightarrow> (error + string) option" where
  "format_from n [] arg = Some (Inr [])"
| "format_from n (c # cs) arg =
     (if c = CHR ''{'' then
        (case cs of
           [] \<Rightarrow> Some (Inl ValueError)
         | d # ds \<Rightarrow>
             if d = CHR ''{'' then emit [CHR ''{''] (format_from n ds arg)
             else if d = CHR ''}'' then
               (if 1 \<le> n then Some (Inl IndexError)
                else emit arg (format_from (Suc n) ds arg))
             else None)
      else if c = CHR ''}'' then
        (case cs of
           [] \<Rightarrow> Some (Inl ValueError)
         | d # ds \<Rightarrow>
             if d = CHR ''}'' then emit [CHR ''}''] (format_from n ds arg)
             else Some (Inl ValueError))
      else emit [c] (format_from n cs arg))"

text \<open>A formatter that is Python's wherever \<open>format_from\<close> describes Python's.\<close>

definition formats_like_python :: "(string \<Rightarrow> string \<Rightarrow> error + string) \<Rightarrow> bool" where
  "formats_like_python fmt = (\<forall>t c r. format_from 0 t c = Some r \<longrightarrow> fmt t c = r)"

text \<open>The number of \<^verbatim>\<open>{}\<close> fields of a template, by the same scan.\<close>

fun count_slots :: "string \<Rightarrow> nat" where
  "count_slots [] = 0"
| "count_slots [c] = 0"
| "count_slots (c # d # ds) =
     (if c = CHR ''{'' \<and> d = CHR ''{'' then count_slots ds
      else if c = CHR ''{'' \<and> d = CHR ''}'' then Suc (count_slots ds)
      else if c = CHR ''}'' \<and> d = CHR ''}'' then count_slots ds
      else count_slots (d # ds))"

text \<open>
  The templates made of literal text, \<^verbatim>\<open>{{\<close>, \<^verbatim>\<open>}}\<close> and \<^verbatim>\<open>{}\<close> only: every
  brace belongs to one of these pairs.
\<close>

fun plain_slots_only :: "string \<Rightarrow> bool" where
  "plain_slots_only [] = True"
| "plain_slots_only [c] = (c \<noteq> CHR ''{'' \<and> c \<noteq> CHR ''}'')"
| "plain_slots_only (c # d # ds) =
     (if c = CHR ''{'' then (d = CHR ''{'' \<or> d = CHR ''}'') \<and> plain_slots_only ds
      else if c = CHR ''}'' then d = CHR ''}'' \<and> plain_slots_only ds
      else plain_slots_only (d # ds))"

section \<open>The text side: \<^verbatim>\<open>zeroshot_classifier\<close>\<close>

text \<open>
  The collaborators of the builder, besides the tensor library: \<open>format_str\<close> is
  \<^verbatim>\<open>template.format(classname)\<close>, \<open>tokenize\<close> is \<^verbatim>\<open>clip.tokenize\<close> on one text (a
  RuntimeError when the text exceeds the context length), \<open>encode_text\<close> is one row of
  \<^verbatim>\<open>model.encode_text\<close> (the rows of a batch do not influence each other, and an empty
  batch encodes to a tensor of shape (0, D)), \<open>embed_dim\<close> is D, the width of every
  embedding. The progress bar, \<^verbatim>\<open>torch.no_grad()\<close> and the moves between devices do
  not change a value and are left out.
\<close>

record ('tok, 'a) text_model = "'a torch" +
  format_str :: "string \<Rightarrow> string \<Rightarrow> error + string"
  tokenize :: "string \<Rightarrow> error + 'tok"
  encode_text :: "'tok \<Rightarrow> error + 'a list"
  embed_dim :: nat

text \<open>A list comprehension or a batched call: the first failure is raised.\<close>

fun map_raise :: "('b \<Rightarrow> error + 'c) \<Rightarrow> 'b list \<Rightarrow> error + 'c list" where
  "map_raise f [] = Inr []"
| "map_raise f (x # xs) =
     (case f x of
        Inl e \<Rightarrow> Inl e
      | Inr y \<Rightarrow> (case map_raise f xs of Inl e \<Rightarrow> Inl e | Inr ys \<Rightarrow> Inr (y # ys)))"

text \<open>The raw embeddings of one class: render, tokenize, encode (shape (T, D)).\<close>

definition encode_class ::
  "('tok, 'a) text_model \<Rightarrow> string list \<Rightarrow> string \<Rightarrow> error + 'a list list" where
  "encode_class tm templates classname =
     (case map_raise (\<lambda>template. format_str tm template classname) templates of
        Inl e \<Rightarrow> Inl e
      | Inr texts \<Rightarrow>
          (case map_raise (tokenize tm) texts of
             Inl e \<Rightarrow> Inl e
           | Inr toks \<Rightarrow> map_raise (encode_text tm) toks))"

text \<open>
  The body of the loop over the class names: every row is divided by its norm, the mean
  over the rows is taken entry by entry, and the mean is divided by its norm.
\<close>

definition class_embedding ::
  "('tok, 'a) text_model \<Rightarrow> string list \<Rightarrow> string \<Rightarrow> error + 'a list" where
  "class_embedding tm templates classname =
     (case encode_class tm templates classname of
        Inl e \<Rightarrow> Inl e
      | Inr raw \<Rightarrow>
          (let class_embeddings = map (\<lambda>row. map (\<lambda>x. ew_div tm x (row_norm tm row)) row) raw;
               class_embedding =
                 map (\<lambda>d. mean_of tm (map (\<lambda>row. row ! d) class_embeddings)) [0..<embed_dim tm]
           in Inr (map (\<lambda>x. ew_div tm x (vec_norm tm class_embedding)) class_embedding)))"

definition zeroshot_classifier ::
  "('tok, 'a) text_model \<Rightarrow> string list \<Rightarrow> string list \<Rightarrow> error + 'a matrix" where
  "zeroshot_classifier tm classnames templates =
     (case map_raise (class_embedding tm templates) classnames of
        Inl e \<Rightarrow> Inl e
      | Inr zeroshot_weights \<Rightarrow> stack_dim1 (embed_dim tm) zeroshot_weights)"

section \<open>The image side: the two stream loops\<close>

text \<open>
  The collaborators of the loops, besides the tensor library. \<open>'w\<close> is the state of the
  outside world (the capture device or file, the keyboard), \<open>'frame\<close> a raw frame,
  \<open>'img\<close> the preprocessed input of the image encoder.
  \<^item> \<open>cap_read\<close> is \<^verbatim>\<open>cap.read()\<close>: \<open>None\<close> is \<^verbatim>\<open>ret == False\<close>;
  \<^item> \<open>cap_isOpened\<close>, \<open>cap_release\<close> are the capture's methods (the release stands
    for the whole \<^verbatim>\<open>finally\<close> block);
  \<^item> \<open>flip\<close> is \<^verbatim>\<open>cv2.flip(frame, 1)\<close>;
  \<^item> \<open>to_input\<close> is the colour conversion, \<^verbatim>\<open>Image.fromarray\<close>, \<^verbatim>\<open>preprocess\<close>,
    \<^verbatim>\<open>unsqueeze(0)\<close> and the move to the device;
  \<^item> \<open>encode_image\<close> is \<^verbatim>\<open>model.encode_image\<close>, which may raise;
  \<^item> \<open>wait_key_q\<close> is \<^verbatim>\<open>cv2.waitKey(1) & 0xFF == ord('q')\<close>.
\<close>

record ('w, 'frame, 'img, 'a) video_env = "'a torch" +
  cap_read :: "'w \<Rightarrow> 'frame option \<times> 'w"
  cap_isOpened :: "'w \<Rightarrow> bool"
  cap_release :: "'w \<Rightarrow> 'w"
  flip :: "'frame \<Rightarrow> 'frame"
  to_input :: "'frame \<Rightarrow> 'img"
  encode_image :: "'img \<Rightarrow> error + 'a list"
  wait_key_q :: "'w \<Rightarrow> bool \<times> 'w"

text \<open>
  The \<^verbatim>\<open>with torch.no_grad()\<close> block of the webcam cell. \<^verbatim>\<open>100. * image_features @
  zeroshot_weights\<close> parses as \<^verbatim>\<open>(100. * image_features) @ zeroshot_weights\<close>. The
  result is the three variables the block leaves behind.
\<close>

definition webcam_predict ::
  "('w, 'frame, 'img, 'a) video_env \<Rightarrow> 'a matrix \<Rightarrow> 'img \<Rightarrow> error + 'a list \<times> 'a \<times> nat" where
  "webcam_predict env zeroshot_weights image_input =
     (case encode_image env image_input of
        Inl e \<Rightarrow> Inl e
      | Inr raw_features \<Rightarrow>
          (let image_features =
                 map (\<lambda>x. ew_div env x (row_norm env raw_features)) raw_features in
           case matmul_row env (map (scalar_mul env 100) image_features) zeroshot_weights of
             Inl e \<Rightarrow> Inl e
           | Inr raw_logits \<Rightarrow>
               (let logits = map (to_float32 env) raw_logits;
                    probabilities = map (softmax_entry env logits) [0..<length logits] in
                case topk1 env probabilities of
                  Inl e \<Rightarrow> Inl e
                | Inr (top_prob, top_label) \<Rightarrow> Inr (probabilities, top_prob, top_label))))"

text \<open>The same block of the prerecorded-video cell, translated from that cell.\<close>

definition video_predict ::
  "('w, 'frame, 'img, 'a) video_env \<Rightarrow> 'a matrix \<Rightarrow> 'img \<Rightarrow> error + 'a list \<times> 'a \<times> nat" where
  "video_predict env zeroshot_weights image_input =
     (case encode_image env image_input of
        Inl e \<Rightarrow> Inl e
      | Inr raw_features \<Rightarrow>
          (let image_features =
                 map (\<lambda>x. ew_div env x (row_norm env raw_features)) raw_features in
           case matmul_row env (map (scalar_mul env 100) image_features) zeroshot_weights of
             Inl e \<Rightarrow> Inl e
           | Inr raw_logits \<Rightarrow>
               (let logits = map (to_float32 env) raw_logits;
                    probabilities = map (softmax_entry env logits) [0..<length logits] in
                case topk1 env probabilities of
                  Inl e \<Rightarrow> Inl e
                | Inr (top_prob, top_label) \<Rightarrow> Inr (probabilities, top_prob, top_label))))"

text \<open>
  What one iteration puts on the screen: the frame it draws on, the predicted emotion
  and the top probability. \<^verbatim>\<open>emotion_classes[top_label[0]]\<close> raises IndexError out of
  range.
\<close>

type_synonym ('frame, 'a) shown = "'frame \<times> string \<times> 'a"

definition webcam_body ::
  "('w, 'frame, 'img, 'a) video_env \<Rightarrow> 'a matrix \<Rightarrow> string list \<Rightarrow> 'frame
     \<Rightarrow> error + ('frame, 'a) shown" where
  "webcam_body env zeroshot_weights emotion_classes frame0 =
     (let frame = flip env frame0;
          image_input = to_input env frame in
      case webcam_predict env zeroshot_weights image_input of
        Inl e \<Rightarrow> Inl e
      | Inr (probabilities, top_prob, top_label) \<Rightarrow>
          if top_label < length emotion_classes
          then Inr (frame, emotion_classes ! top_label, top_prob)
          else Inl IndexError)"

definition video_body ::
  "('w, 'frame, 'img, 'a) video_env \<Rightarrow> 'a matrix \<Rightarrow> string list \<Rightarrow> 'frame
     \<Rightarrow> error + ('frame, 'a) shown" where
  "video_body env zeroshot_weights emotion_classes frame =
     (let image_input = to_input env frame in
      case video_predict env zeroshot_weights image_input of
        Inl e \<Rightarrow> Inl e
      | Inr (probabilities, top_prob, top_label) \<Rightarrow>
          if top_label < length emotion_classes
          then Inr (frame, emotion_classes ! top_label, top_prob)
          else Inl IndexError)"

text \<open>
  The \<^verbatim>\<open>while True\<close> loop of the webcam cell. It may run forever (a live camera and no
  key press), so it lives in the option monad: \<open>None\<close> is a loop that never exits. A result
  is how the loop ended (\<open>Inr ()\<close> by a \<^verbatim>\<open>break\<close>, \<open>Inl e\<close> by an exception leaving the
  loop), the frames shown so far, and the world.
\<close>

partial_function (option) webcam_iter ::
  "('w, 'frame, 'img, 'a) video_env \<Rightarrow> 'a matrix \<Rightarrow> string list \<Rightarrow> 'w
     \<Rightarrow> ('frame, 'a) shown list \<Rightarrow> ((error + unit) \<times> ('frame, 'a) shown list \<times> 'w) option" where
  "webcam_iter env zeroshot_weights emotion_classes w shown =
     (case cap_read env w of
        (None, w1) \<Rightarrow> Some (Inr (), shown, w1)
      | (Some frame, w1) \<Rightarrow>
          (case webcam_body env zeroshot_weights emotion_classes frame of
             Inl e \<Rightarrow> Some (Inl e, shown, w1)
           | Inr d \<Rightarrow>
               (case wait_key_q env w1 of
                  (quit, w2) \<Rightarrow>
                    if quit then Some (Inr (), shown @ [d], w2)
                    else webcam_iter env zeroshot_weights emotion_classes w2 (shown @ [d]))))"

text \<open>The \<^verbatim>\<open>while cap.isOpened()\<close> loop of the prerecorded-video cell.\<close>

partial_function (option) video_iter ::
  "('w, 'frame, 'img, 'a) video_env \<Rightarrow> 'a matrix \<Rightarrow> string list \<Rightarrow> 'w
     \<Rightarrow> ('frame, 'a) shown list \<Rightarrow> ((error + unit) \<times> ('frame, 'a) shown list \<times> 'w) option" where
  "video_iter env zeroshot_weights emotion_classes w shown =
     (if \<not> cap_isOpened env w then Some (Inr (), shown, w)
      else
        (case cap_read env w of
           (None, w1) \<Rightarrow> Some (Inr (), shown, w1)
         | (Some frame, w1) \<Rightarrow>
             (case video_body env zeroshot_weights emotion_classes frame of
                Inl e \<Rightarrow> Some (Inl e, shown, w1)
              | Inr d \<Rightarrow>
                  (case wait_key_q env w1 of
                     (quit, w2) \<Rightarrow>
                       if quit then Some (Inr (), shown @ [d], w2)
                       else video_iter env zeroshot_weights emotion_classes w2 (shown @ [d])))))"

text \<open>The cells: the loop inside \<^verbatim>\<open>try\<close>, the release in \<^verbatim>\<open>finally\<close> on every exit.\<close>

definition webcam_loop ::
  "('w, 'frame, 'img, 'a) video_env \<Rightarrow> 'a matrix \<Rightarrow> string list \<Rightarrow> 'w
     \<Rightarrow> ((error + unit) \<times> ('frame, 'a) shown list \<times> 'w) option" where
  "webcam_loop env zeroshot_weights emotion_classes w =
     (case webcam_iter env zeroshot_weights emotion_classes w [] of
        None \<Rightarrow> None
      | Some (r, shown, w') \<Rightarrow> Some (r, shown, cap_release env w'))"

definition video_loop ::
  "('w, 'frame, 'img, 'a) video_env \<Rightarrow> 'a matrix \<Rightarrow> string list \<Rightarrow> 'w
     \<Rightarrow> ((error + unit) \<times> ('frame, 'a) shown list \<times> 'w) option" where
  "video_loop env zeroshot_weights emotion_classes w =
     (case video_iter env zeroshot_weights emotion_classes w [] of
        None \<Rightarrow> None
      | Some (r, shown, w') \<Rightarrow> Some (r, shown, cap_release env w'))"

section \<open>A tensor library for the examples: IEEE single precision\<close>

text \<open>
  The examples run on one concrete library. Its entries are the values of IEEE binary32
  (a finite number, the two infinities, NaN; the sign of a zero is not kept: every
  divisor of this program is a norm, a count or a sum of exponentials, never a negative
  zero). \<open>f32\<close> rounds a real to the nearest binary32 number, ties to even, with gradual
  underflow and overflow to infinity; each arithmetic operation is the exact operation
  followed by \<open>f32\<close>, and the special values follow IEEE 754.
\<close>

datatype fval = Num real | PInf | NInf | NaN

definition rne :: "real \<Rightarrow> int" where
  "rne q =
     (let f = \<lfloor>q\<rfloor>; r = q - of_int f
      in if r < 1 / 2 then f else if 1 / 2 < r then f + 1 else if even f then f else f + 1)"

definition f32 :: "real \<Rightarrow> fval" where
  "f32 x =
     (if x = 0 then Num 0
      else
        (let e = max \<lfloor>log 2 \<bar>x\<bar>\<rfloor> (- 126);
             u = 2 powr (of_int e - 23);
             y = of_int (rne (x / u)) * u
         in if 2 powr 128 \<le> \<bar>y\<bar> then (if 0 < x then PInf else NInf) else Num y))"

fun is_neg :: "fval \<Rightarrow> bool" where
  "is_neg (Num a) = (a < 0)"
| "is_neg NInf = True"
| "is_neg _ = False"

fun fneg :: "fval \<Rightarrow> fval" where
  "fneg (Num a) = Num (- a)"
| "fneg PInf = NInf"
| "fneg NInf = PInf"
| "fneg NaN = NaN"

fun fadd :: "fval \<Rightarrow> fval \<Rightarrow> fval" where
  "fadd NaN _ = NaN"
| "fadd _ NaN = NaN"
| "fadd (Num a) (Num b) = f32 (a + b)"
| "fadd PInf NInf = NaN"
| "fadd NInf PInf = NaN"
| "fadd PInf _ = PInf"
| "fadd _ PInf = PInf"
| "fadd NInf _ = NInf"
| "fadd _ NInf = NInf"

fun fmul :: "fval \<Rightarrow> fval \<Rightarrow> fval" where
  "fmul NaN _ = NaN"
| "fmul _ NaN = NaN"
| "fmul (Num a) (Num b) = f32 (a * b)"
| "fmul x y =
     (if x = Num 0 \<or> y = Num 0 then NaN
      else if is_neg x \<noteq> is_neg y then NInf else PInf)"

fun fdiv :: "fval \<Rightarrow> fval \<Rightarrow> fval" where
  "fdiv NaN _ = NaN"
| "fdiv _ NaN = NaN"
| "fdiv (Num a) (Num b) =
     (if b = 0 then (if a = 0 then NaN else if 0 < a then PInf else NInf)
      else f32 (a / b))"
| "fdiv (Num a) _ = Num 0"
| "fdiv x (Num b) = (if is_neg x \<noteq> (b < 0) then NInf else PInf)"
| "fdiv _ _ = NaN"

fun fsqrt :: "fval \<Rightarrow> fval" where
  "fsqrt (Num a) = (if a < 0 then NaN else f32 (sqrt a))"
| "fsqrt PInf = PInf"
| "fsqrt _ = NaN"

fun fexp :: "fval \<Rightarrow> fval" where
  "fexp (Num a) = f32 (exp a)"
| "fexp PInf = PInf"
| "fexp NInf = Num 0"
| "fexp NaN = NaN"

fun fmax :: "fval \<Rightarrow> fval \<Rightarrow> fval" where
  "fmax NaN _ = NaN"
| "fmax _ NaN = NaN"
| "fmax PInf _ = PInf"
| "fmax _ PInf = PInf"
| "fmax NInf y = y"
| "fmax x NInf = x"
| "fmax (Num a) (Num b) = Num (max a b)"

text \<open>
  Comparison (false as soon as a NaN is involved) and the reductions. A sum adds from
  the left, starting from zero, one rounding for each addition.
\<close>

fun fle :: "fval \<Rightarrow> fval \<Rightarrow> bool" where
  "fle NaN _ = False"
| "fle _ NaN = False"
| "fle NInf _ = True"
| "fle _ PInf = True"
| "fle (Num a) (Num b) = (a \<le> b)"
| "fle _ _ = False"

definition fsum :: "fval list \<Rightarrow> fval" where
  "fsum xs = foldl fadd (Num 0) xs"

definition ieee_norm :: "fval list \<Rightarrow> fval" where
  "ieee_norm v = fsqrt (fsum (map (\<lambda>x. fmul x x) v))"

definition ieee_mean :: "fval list \<Rightarrow> fval" where
  "ieee_mean xs = fdiv (fsum xs) (f32 (real (length xs)))"

definition ieee_dot :: "fval list \<Rightarrow> fval list \<Rightarrow> fval" where
  "ieee_dot u v = fsum (map (\<lambda>(a, b). fmul a b) (zip u v))"

text \<open>The softmax of a row, the maximum subtracted first, as torch computes it.\<close>

definition ieee_softmax_entry :: "fval list \<Rightarrow> nat \<Rightarrow> fval" where
  "ieee_softmax_entry xs j =
     (let top = foldl fmax NInf xs
      in fdiv (fexp (fadd (xs ! j) (fneg top)))
              (fsum (map (\<lambda>x. fexp (fadd x (fneg top))) xs)))"

text \<open>
  Two top-1 selections: among equal maxima \<open>first_max\<close> takes the first one,
  \<open>last_max\<close> the last one.
\<close>

fun first_max :: "fval list \<Rightarrow> fval \<times> nat" where
  "first_max [] = (NaN, 0)"
| "first_max [x] = (x, 0)"
| "first_max (x # y # ys) =
     (case first_max (y # ys) of (p, k) \<Rightarrow> if fle p x then (x, 0) else (p, Suc k))"

fun last_max :: "fval list \<Rightarrow> fval \<times> nat" where
  "last_max [] = (NaN, 0)"
| "last_max [x] = (x, 0)"
| "last_max (x # y # ys) =
     (case last_max (y # ys) of (p, k) \<Rightarrow> if fle x p then (p, Suc k) else (x, 0))"

text \<open>
  What the documentation of \<^verbatim>\<open>topk(1)\<close> promises on a row of finite entries: the value
  returned is an entry of the row, at the index returned, and no entry exceeds it. Which
  of several equal maxima is selected is not part of it.
\<close>

fun is_num :: "fval \<Rightarrow> bool" where
  "is_num (Num a) = True"
| "is_num _ = False"

definition topk1_selects_max :: "(fval list \<Rightarrow> error + fval \<times> nat) \<Rightarrow> bool" where
  "topk1_selects_max tk =
     (\<forall>xs. xs \<noteq> [] \<and> (\<forall>x\<in>set xs. is_num x) \<longrightarrow>
        (\<exists>p k. tk xs = Inr (p, k) \<and> k < length xs \<and> xs ! k = p \<and> (\<forall>x\<in>set xs. fle x p)))"

section \<open>Concrete collaborators for the examples\<close>

text \<open>
  A two-dimensional text encoder on the tokens of a text (here the text itself, refused
  beyond the context length of 77). The formatter is \<open>format_from\<close> where it describes
  Python's (no example uses another template). \<open>tiny\<close> is a binary32 number whose
  square underflows; \<open>eps\<close> is half the distance from 1 to the next binary32 number, so
  that 1 + \<open>eps\<close> rounds to 1.
\<close>

definition tiny :: real where
  "tiny = 1 / 2 ^ 100"

definition eps :: real where
  "eps = 1 / 2 ^ 24"

definition toy_text_model :: "(string, fval) text_model" where
  "toy_text_model =
     \<lparr> ew_div = fdiv,
       scalar_mul = (\<lambda>c x. fmul (f32 c) x),
       row_norm = ieee_norm,
       vec_norm = ieee_norm,
       mean_of = ieee_mean,
       dot = ieee_dot,
       to_float32 = (\<lambda>x. x),
       softmax_entry = ieee_softmax_entry,
       topk1 = (\<lambda>xs. if xs = [] then Inl RuntimeError else Inr (first_max xs)),
       format_str = (\<lambda>t c. case format_from 0 t c of Some r \<Rightarrow> r | None \<Rightarrow> Inl ValueError),
       tokenize = (\<lambda>s. if 77 < length s then Inl RuntimeError else Inr s),
       encode_text = (\<lambda>s.
          if s = ''a happy face.'' then Inr [Num 1, Num 0]
          else if s = ''no happy face.'' then Inr [Num (- 1), Num 0]
          else if s = ''faint happy face.'' then Inr [Num (- 1), Num tiny]
          else if s = ''big happy face.'' then Inr [Num (- 4), Num 0]
          else if s = ''slight happy face.'' then Inr [Num eps, Num 1]
          else if s = ''a grim face.'' then Inr [Num (- 1), Num 0]
          else Inr [Num 0, Num 1]),
       embed_dim = 2 \<rparr>"

text \<open>
  A video collaborator on frames that are numbers: the world is the list of frames still
  to come and whether the capture is open, the flip exchanges 2n and 2n+1, the encoder
  fails on image 0 and answers (1, 0) on image 1, (-4, 0) on image 3, (0, 0) on image 5
  and (0, 1) on the others, the top-1 selection is \<open>first_max\<close>, no key is ever
  pressed.
\<close>

definition toy_video_env :: "(nat list \<times> bool, nat, nat, fval) video_env" where
  "toy_video_env =
     \<lparr> ew_div = fdiv,
       scalar_mul = (\<lambda>c x. fmul (f32 c) x),
       row_norm = ieee_norm,
       vec_norm = ieee_norm,
       mean_of = ieee_mean,
       dot = ieee_dot,
       to_float32 = (\<lambda>x. x),
       softmax_entry = ieee_softmax_entry,
       topk1 = (\<lambda>xs. if xs = [] then Inl RuntimeError else Inr (first_max xs)),
       cap_read = (\<lambda>(frames, opened). case frames of
                     [] \<Rightarrow> (None, ([], opened))
                   | fr # rest \<Rightarrow> (Some fr, (rest, opened))),
       cap_isOpened = (\<lambda>(frames, opened). opened),
       cap_release = (\<lambda>(frames, opened). (frames, False)),
       flip = (\<lambda>fr. if even fr then Suc fr else fr - 1),
       to_input = (\<lambda>fr. fr),
       encode_image = (\<lambda>x. if x = 0 then Inl RuntimeError
                             else if x = 1 then Inr [Num 1, Num 0]
                             else if x = 3 then Inr [Num (- 4), Num 0]
                             else if x = 5 then Inr [Num 0, Num 0]
                             else Inr [Num 0, Num 1]),
       wait_key_q = (\<lambda>w. (False, w)) \<rparr>"

section \<open>IEEE single precision: rounding facts\<close>

lemma rne_of_int: "rne (of_int j) = j"
  by (simp add: rne_def)

lemma rne_small: "\<bar>q\<bar> < 1 / 2 \<Longrightarrow> rne q = 0"
proof -
  assume a: "\<bar>q\<bar> < 1 / 2"
  show ?thesis
  proof (cases "0 \<le> q")
    case True
    with a have "\<lfloor>q\<rfloor> = 0" by (simp add: floor_eq_iff)
    with a True show ?thesis by (simp add: rne_def)
  next
    case False
    with a have "\<lfloor>q\<rfloor> = - 1" by (simp add: floor_eq_iff)
    with a False show ?thesis by (simp add: rne_def)
  qed
qed

lemma f32_tiny:
  assumes "\<bar>x\<bar> < 1 / 2 ^ 150"
  shows "f32 x = Num 0"
proof (cases "x = 0")
  case True
  then show ?thesis by (simp add: f32_def)
next
  case False
  then have pos: "0 < \<bar>x\<bar>" by simp
  have "\<bar>x\<bar> < 2 powr (- 150)"
    using assms by (simp add: powr_minus_divide)
  then have "log 2 \<bar>x\<bar> < - 150"
    using pos by (simp add: log_less_iff)
  then have "\<lfloor>log 2 \<bar>x\<bar>\<rfloor> \<le> - 126" by linarith
  then have e: "max \<lfloor>log 2 \<bar>x\<bar>\<rfloor> (- 126) = - 126" by simp
  have u: "(2::real) powr (of_int (max \<lfloor>log 2 \<bar>x\<bar>\<rfloor> (- 126)) - 23) = 1 / 2 ^ 149"
    unfolding e by (simp add: powr_minus_divide)
  have "\<bar>x / (1 / 2 ^ 149)\<bar> = \<bar>x\<bar> * 2 ^ 149" by (simp add: abs_mult)
  also have "\<dots> < 1 / 2 ^ 150 * 2 ^ 149" using assms by (simp add: mult_strict_right_mono)
  also have "\<dots> = 1 / 2" by simp
  finally have r: "rne (x / (1 / 2 ^ 149)) = 0" by (rule rne_small)
  show ?thesis
    unfolding f32_def Let_def u r using False by simp
qed

lemma f32_dyadic:
  assumes m: "\<bar>m\<bar> < 2 ^ 24" and n: "n \<le> 149"
  shows "f32 (of_int m / 2 ^ n) = Num (of_int m / 2 ^ n)"
proof (cases "m = 0")
  case True
  then show ?thesis by (simp add: f32_def)
next
  case False
  let ?x = "of_int m / 2 ^ n :: real"
  have x0: "?x \<noteq> 0" using False by simp
  have ax: "\<bar>?x\<bar> = of_int \<bar>m\<bar> / 2 ^ n" by (simp add: abs_divide)
  define e where "e = max \<lfloor>log 2 \<bar>?x\<bar>\<rfloor> (- 126)"
  have le: "e \<le> 23 - int n"
  proof -
    have "\<bar>?x\<bar> < 2 ^ 24 / 2 ^ n"
      unfolding ax using m by (simp add: divide_strict_right_mono)
    also have "\<dots> = 2 powr (24 - real n)"
      by (simp add: powr_diff powr_realpow)
    finally have "log 2 \<bar>?x\<bar> < 24 - real n"
      using x0 by (simp add: log_less_iff)
    then have "\<lfloor>log 2 \<bar>?x\<bar>\<rfloor> < 24 - int n" by linarith
    moreover have "- 126 \<le> 23 - int n" using n by simp
    ultimately show ?thesis unfolding e_def by simp
  qed
  define k where "k = nat (23 - int n - e)"
  have k: "int k = 23 - int n - e" using le by (simp add: k_def)
  define u where "u = (2::real) powr (of_int e - 23)"
  have upos: "0 < u" by (simp add: u_def)
  have "u * 2 ^ k * 2 ^ n = 2 powr (of_int e - 23) * 2 powr (real k) * 2 powr (real n)"
    by (simp add: u_def powr_realpow)
  also have "\<dots> = 2 powr (of_int e - 23 + real k + real n)"
    by (simp add: powr_add)
  also have "of_int e - 23 + real k + real n = (0::real)"
  proof -
    have "real k = of_int (int k)" by simp
    also have "\<dots> = 23 - real n - of_int e" unfolding k by simp
    finally show ?thesis by simp
  qed
  finally have uk: "u * 2 ^ k * 2 ^ n = 1" by simp
  have q: "?x / u = of_int (m * 2 ^ k)"
  proof -
    have "of_int (m * 2 ^ k) * u = of_int m * (u * 2 ^ k * 2 ^ n) / 2 ^ n"
      by simp
    also have "\<dots> = ?x" by (simp only: uk mult.right_neutral)
    finally show ?thesis using upos by (simp add: field_simps)
  qed
  have y: "of_int (rne (?x / u)) * u = ?x"
    unfolding q rne_of_int using q upos by (simp add: field_simps)
  have "(1::real) \<le> 2 ^ n" by simp
  then have "of_int \<bar>m\<bar> * (1::real) \<le> of_int \<bar>m\<bar> * 2 ^ n"
    by (intro mult_left_mono) simp_all
  then have "\<bar>?x\<bar> \<le> of_int \<bar>m\<bar>" unfolding ax
    by (simp add: divide_le_eq)
  also have "\<dots> < 2 ^ 24" using m by (simp flip: of_int_less_iff)
  also have "\<dots> \<le> (2::real) powr 128" by simp
  finally have small: "\<not> 2 powr 128 \<le> \<bar>?x\<bar>" by simp
  show ?thesis
    using x0 small y unfolding f32_def Let_def e_def[symmetric] u_def[symmetric]
    by simp
qed

lemma f32_of_int: "\<bar>m\<bar> < 2 ^ 24 \<Longrightarrow> f32 (of_int m) = Num (of_int m)"
  using f32_dyadic[of m 0] by simp

lemma f32_numeral: "numeral k < (2::int) ^ 24 \<Longrightarrow> f32 (numeral k) = Num (numeral k)"
  using f32_of_int[of "numeral k"] by simp

lemma f32_neg_numeral:
  "numeral k < (2::int) ^ 24 \<Longrightarrow> f32 (- numeral k) = Num (- numeral k)"
  using f32_of_int[of "- numeral k"] by simp

lemma f32_consts:
  "f32 0 = Num 0" "f32 1 = Num 1" "f32 (- 1) = Num (- 1)"
  "f32 (1 / 2) = Num (1 / 2)" "f32 (1 / 4) = Num (1 / 4)"
  using f32_of_int[of 0] f32_of_int[of 1] f32_of_int[of "- 1"]
    f32_dyadic[of 1 1] f32_dyadic[of 1 2]
  by simp_all

lemma tiny_pos: "0 < tiny" "tiny \<noteq> 0"
  by (simp_all add: tiny_def)

lemma f32_tiny_consts:
  "f32 tiny = Num tiny" "f32 (tiny / 2) = Num (tiny / 2)"
  "f32 (tiny * tiny) = Num 0" "f32 (tiny * tiny / 4) = Num 0"
proof -
  show "f32 tiny = Num tiny" using f32_dyadic[of 1 100] by (simp add: tiny_def)
  show "f32 (tiny / 2) = Num (tiny / 2)" using f32_dyadic[of 1 101] by (simp add: tiny_def)
  show "f32 (tiny * tiny) = Num 0" by (rule f32_tiny) (simp add: tiny_def)
  show "f32 (tiny * tiny / 4) = Num 0" by (rule f32_tiny) (simp add: tiny_def)
qed

lemma sqrt_consts: "sqrt 16 = 4" "sqrt (1 / 4) = 1 / 2"
  by (rule real_sqrt_unique; simp add: power2_eq_square)+

lemmas ieee_simps = f32_numeral f32_neg_numeral f32_consts f32_tiny_consts sqrt_consts
  fsum_def ieee_norm_def ieee_mean_def ieee_dot_def

lemma norm_vals:
  "ieee_norm [Num 1, Num 0] = Num 1"
  "ieee_norm [Num (- 1), Num 0] = Num 1"
  "ieee_norm [Num 0, Num 1] = Num 1"
  "ieee_norm [Num (- 4), Num 0] = Num 4"
  "ieee_norm [Num (1 / 2), Num 0] = Num (1 / 2)"
  "ieee_norm [Num 0, Num 0] = Num 0"
  "ieee_norm [Num (- 1), Num tiny] = Num 1"
  "ieee_norm [Num 0, Num (tiny / 2)] = Num 0"
  "ieee_norm [NaN, NaN] = NaN"
  "ieee_norm [NaN, PInf] = NaN"
  by (simp_all add: ieee_simps)

lemma mean_vals:
  "ieee_mean [Num (- 1), Num 1, Num 1, Num 1] = Num (1 / 2)"
  "ieee_mean [Num 0, Num 0, Num 0, Num 0] = Num 0"
  "ieee_mean [Num 1, Num 1, Num 1, Num 1] = Num 1"
  "ieee_mean [Num 1, Num (- 1)] = Num 0"
  "ieee_mean [Num 0, Num 0] = Num 0"
  "ieee_mean [Num 1, Num 1] = Num 1"
  "ieee_mean [Num 0, Num tiny] = Num (tiny / 2)"
  "ieee_mean [Num 0] = Num 0"
  "ieee_mean [Num 1] = Num 1"
  by (simp_all add: ieee_simps)

section \<open>IEEE single precision: a sum that is not exact\<close>

lemma rne_near:
  assumes "0 \<le> r" and "r < 1 / 2 \<or> (r = 1 / 2 \<and> even m)"
  shows "rne (of_int m + r) = m"
proof -
  from assms have r1: "r < 1" by auto
  have fl: "\<lfloor>of_int m + r\<rfloor> = m" using assms(1) r1 by (simp add: floor_eq_iff)
  show ?thesis using assms(2) by (auto simp: rne_def fl)
qed

lemma f32_round_near:
  assumes m: "2 ^ 23 \<le> m" "m < 2 ^ 24" and n: "n \<le> 149"
    and d: "0 \<le> \<delta>" "\<delta> * 2 ^ n < 1 / 2 \<or> (\<delta> * 2 ^ n = 1 / 2 \<and> even m)"
  shows "f32 (of_int m / 2 ^ n + \<delta>) = Num (of_int m / 2 ^ n)"
proof -
  let ?x = "of_int m / 2 ^ n + \<delta> :: real"
  define r where "r = \<delta> * 2 ^ n"
  have r0: "0 \<le> r" using d(1) by (simp add: r_def)
  have r1: "r \<le> 1 / 2" using d(2) by (auto simp: r_def)
  have xs: "?x * 2 ^ n = of_int m + r" by (simp add: r_def field_simps)
  have mpos: "(0::real) < of_int m"
  proof -
    have "(0::int) < 2 ^ 23" by simp
    with m(1) have "0 < m" by linarith
    then show ?thesis by simp
  qed
  have xpos: "0 < ?x" using mpos d(1) by (simp add: add_pos_nonneg)
  have lo: "(2::real) ^ 23 \<le> of_int m" using m(1) by (simp flip: of_int_le_iff)
  have hi: "of_int m + 1 \<le> (2::real) ^ 24"
  proof -
    from m(2) have "m + 1 \<le> 2 ^ 24" by simp
    then have "(of_int (m + 1) :: real) \<le> of_int (2 ^ 24)" by (simp only: of_int_le_iff)
    then show ?thesis by simp
  qed
  have b1: "2 powr (of_int (23 - int n)) \<le> ?x"
  proof -
    have "2 powr (of_int (23 - int n)) = (2::real) ^ 23 / 2 ^ n"
      by (simp add: powr_diff powr_realpow)
    also have "\<dots> \<le> of_int m / 2 ^ n" using lo by (simp add: divide_right_mono)
    also have "\<dots> \<le> ?x" using d(1) by simp
    finally show ?thesis .
  qed
  have b2: "?x < 2 powr (of_int (23 - int n + 1))"
  proof -
    have "?x = (of_int m + r) / 2 ^ n" using xs by (simp add: field_simps)
    also have "\<dots> < (2::real) ^ 24 / 2 ^ n"
      using hi r1 by (intro divide_strict_right_mono) simp_all
    also have "\<dots> = 2 powr (of_int (23 - int n + 1))"
      by (simp add: powr_diff powr_realpow)
    finally show ?thesis .
  qed
  have "\<lfloor>log 2 ?x\<rfloor> = 23 - int n"
    using xpos b1 b2 by (simp add: floor_log_eq_powr_iff)
  then have fl: "\<lfloor>log 2 \<bar>?x\<bar>\<rfloor> = 23 - int n" using xpos by simp
  have e: "max \<lfloor>log 2 \<bar>?x\<bar>\<rfloor> (- 126) = 23 - int n" unfolding fl using n by simp
  have u: "(2::real) powr (of_int (max \<lfloor>log 2 \<bar>?x\<bar>\<rfloor> (- 126)) - 23) = 1 / 2 ^ n"
    unfolding e by (simp add: powr_minus_divide powr_realpow)
  have q: "?x / (1 / 2 ^ n) = of_int m + r" using xs by simp
  have rn: "rne (?x / (1 / 2 ^ n)) = m"
    unfolding q using r0 d(2) by (intro rne_near) (simp_all add: r_def)
  have "of_int m / (2::real) ^ n \<le> of_int m"
    using mpos by (simp add: divide_le_eq)
  also have "\<dots> < 2 ^ 24" using hi by simp
  also have "\<dots> \<le> (2::real) powr 128" by simp
  finally have small: "\<not> 2 powr 128 \<le> \<bar>of_int m / (2::real) ^ n\<bar>" using mpos by simp
  show ?thesis
    unfolding f32_def Let_def u rn using xpos small by simp
qed

lemma eps_pos: "0 < eps" "eps \<noteq> 0"
  by (simp_all add: eps_def)

lemma f32_eps_consts:
  "f32 eps = Num eps" "f32 (eps / 2) = Num (eps / 2)" "f32 (eps / 4) = Num (eps / 4)"
  "f32 (eps * eps) = Num (eps * eps)" "f32 (eps * eps / 16) = Num (eps * eps / 16)"
proof -
  show "f32 eps = Num eps" using f32_dyadic[of 1 24] by (simp add: eps_def)
  show "f32 (eps / 2) = Num (eps / 2)" using f32_dyadic[of 1 25] by (simp add: eps_def)
  show "f32 (eps / 4) = Num (eps / 4)" using f32_dyadic[of 1 26] by (simp add: eps_def)
  show "f32 (eps * eps) = Num (eps * eps)" using f32_dyadic[of 1 48] by (simp add: eps_def)
  show "f32 (eps * eps / 16) = Num (eps * eps / 16)"
    using f32_dyadic[of 1 52] by (simp add: eps_def)
qed

lemma f32_eps_rounded:
  "f32 (1 + eps) = Num 1" "f32 (eps * eps + 1) = Num 1" "f32 (eps * eps / 16 + 1 / 4) = Num (1 / 4)"
proof -
  show "f32 (1 + eps) = Num 1"
    using f32_round_near[of "2 ^ 23" 23 eps] by (simp add: eps_def)
  show "f32 (eps * eps + 1) = Num 1"
    using f32_round_near[of "2 ^ 23" 23 "eps * eps"] by (simp add: eps_def add.commute)
  show "f32 (eps * eps / 16 + 1 / 4) = Num (1 / 4)"
    using f32_round_near[of "2 ^ 23" 25 "eps * eps / 16"] by (simp add: eps_def add.commute)
qed

section \<open>The builder: helper facts\<close>




lemma map_raise_fails:
  "x \<in> set xs \<Longrightarrow> f x = Inl e \<Longrightarrow> \<exists>e'. map_raise f xs = Inl e'"
  by (induction xs) (auto split: sum.splits)

lemma map_raise_cong:
  "\<forall>x\<in>set xs. f x = g x \<Longrightarrow> map_raise f xs = map_raise g xs"
  by (induction xs) (auto split: sum.splits)




lemma length_column: "length (column i M) = length (rows M)"
  by (simp add: column_def)









section \<open>Permuting the templates: helper facts\<close>

lemma map_raise_Inr_map:
  "map_raise f xs = Inr ys \<longleftrightarrow>
     (\<forall>x\<in>set xs. \<exists>y. f x = Inr y) \<and> ys = map (\<lambda>x. projr (f x)) xs"
proof (induction xs arbitrary: ys)
  case Nil
  show ?case by auto
next
  case (Cons x xs)
  show ?case
  proof (cases "f x")
    case (Inl e)
    then show ?thesis by auto
  next
    case fx: (Inr y)
    show ?thesis
    proof (cases "map_raise f xs")
      case (Inl e)
      with Cons.IH[of "map (\<lambda>x. projr (f x)) xs"]
      have "\<not> (\<forall>x\<in>set xs. \<exists>y. f x = Inr y)" by simp
      with fx Inl show ?thesis by auto
    next
      case (Inr zs)
      with Cons.IH[of zs] have "(\<forall>x\<in>set xs. \<exists>y. f x = Inr y)" "zs = map (\<lambda>x. projr (f x)) xs"
        by simp_all
      with fx Inr show ?thesis by auto
    qed
  qed
qed

lemma map_raise_permuted:
  assumes "set xs' = set xs" and "map_raise f xs = Inr ys"
  shows "map_raise f xs' = Inr (map (\<lambda>x. projr (f x)) xs')"
    and "ys = map (\<lambda>x. projr (f x)) xs"
  using assms by (simp_all add: map_raise_Inr_map)

lemma encode_class_permuted:
  assumes "mset templates' = mset templates" and "encode_class tm templates c = Inr raw"
  shows "\<exists>raw'. encode_class tm templates' c = Inr raw' \<and> mset raw' = mset raw"
proof -
  let ?f = "\<lambda>t. projr (format_str tm t c)"
  let ?t = "\<lambda>text. projr (tokenize tm text)"
  let ?e = "\<lambda>tok. projr (encode_text tm tok)"
  from assms(2) obtain texts toks where
    a: "map_raise (\<lambda>template. format_str tm template c) templates = Inr texts" and
    b: "map_raise (tokenize tm) texts = Inr toks" and
    c: "map_raise (encode_text tm) toks = Inr raw"
    by (auto simp: encode_class_def split: sum.splits)
  have s: "set templates' = set templates" using assms(1) by (rule mset_eq_setD)
  have a': "map_raise (\<lambda>template. format_str tm template c) templates' = Inr (map ?f templates')"
    and texts: "texts = map ?f templates"
    using map_raise_permuted[OF s a] by simp_all
  have s2: "set (map ?f templates') = set texts" using s texts by simp
  have b': "map_raise (tokenize tm) (map ?f templates') = Inr (map ?t (map ?f templates'))"
    and toks: "toks = map ?t texts"
    using map_raise_permuted[OF s2 b] by simp_all
  have s3: "set (map ?t (map ?f templates')) = set toks" using s texts toks by simp
  have c': "map_raise (encode_text tm) (map ?t (map ?f templates'))
              = Inr (map ?e (map ?t (map ?f templates')))"
    and raw: "raw = map ?e toks"
    using map_raise_permuted[OF s3 c] by simp_all
  have "encode_class tm templates' c = Inr (map ?e (map ?t (map ?f templates')))"
    by (simp only: encode_class_def a' b' c' sum.case)
  moreover have "mset (map ?e (map ?t (map ?f templates'))) = mset raw"
    by (simp add: raw toks texts assms(1))
  ultimately show ?thesis by blast
qed

section \<open>The example collaborators: helper facts\<close>

lemma toy_lib:
  "ew_div toy_text_model = fdiv"
  "row_norm toy_text_model = ieee_norm"
  "vec_norm toy_text_model = ieee_norm"
  "mean_of toy_text_model = ieee_mean"
  "embed_dim toy_text_model = 2"
  by (simp_all add: toy_text_model_def)

lemma toy_format:
  "format_str toy_text_model ''a {} face.'' ''happy'' = Inr ''a happy face.''"
  "format_str toy_text_model ''no {} face.'' ''happy'' = Inr ''no happy face.''"
  "format_str toy_text_model ''faint {} face.'' ''happy'' = Inr ''faint happy face.''"
  "format_str toy_text_model ''big {} face.'' ''happy'' = Inr ''big happy face.''"
  "format_str toy_text_model ''a {} face.'' ''sad'' = Inr ''a sad face.''"
  "format_str toy_text_model ''no {} face.'' ''sad'' = Inr ''no sad face.''"
  "format_str toy_text_model ''big {} face.'' ''sad'' = Inr ''big sad face.''"
  "format_str toy_text_model ''a face.'' ''happy'' = Inr ''a face.''"
  by (simp_all add: toy_text_model_def)

lemma toy_encode:
  "encode_class toy_text_model [''big {} face.'', ''a {} face.'', ''a {} face.'', ''a {} face.'']
     ''happy'' = Inr [[Num (- 4), Num 0], [Num 1, Num 0], [Num 1, Num 0], [Num 1, Num 0]]"
  "encode_class toy_text_model [''big {} face.'', ''a {} face.'', ''a {} face.'', ''a {} face.'']
     ''sad'' = Inr [[Num 0, Num 1], [Num 0, Num 1], [Num 0, Num 1], [Num 0, Num 1]]"
  "encode_class toy_text_model [''a {} face.'', ''no {} face.''] ''happy''
     = Inr [[Num 1, Num 0], [Num (- 1), Num 0]]"
  "encode_class toy_text_model [''a {} face.'', ''no {} face.''] ''sad''
     = Inr [[Num 0, Num 1], [Num 0, Num 1]]"
  "encode_class toy_text_model [''a {} face.'', ''faint {} face.''] ''happy''
     = Inr [[Num 1, Num 0], [Num (- 1), Num tiny]]"
  "encode_class toy_text_model [''a face.''] ''happy'' = Inr [[Num 0, Num 1]]"
  by (simp_all add: encode_class_def toy_format) (simp_all add: toy_text_model_def)

lemma div_vals:
  "fdiv (Num 0) (Num 0) = NaN" "fdiv (Num 0) (Num 1) = Num 0" "fdiv (Num 1) (Num 1) = Num 1"
  "fdiv (Num (- 1)) (Num 1) = Num (- 1)" "fdiv (Num (- 4)) (Num 4) = Num (- 1)"
  "fdiv (Num 0) (Num 4) = Num 0" "fdiv (Num (1 / 2)) (Num (1 / 2)) = Num 1"
  "fdiv (Num 0) (Num (1 / 2)) = Num 0" "fdiv (Num tiny) (Num 1) = Num tiny"
  "fdiv (Num (tiny / 2)) (Num 0) = PInf"
  using tiny_pos by (simp_all add: ieee_simps)

lemma toy_class_embedding:
  "class_embedding toy_text_model
     [''big {} face.'', ''a {} face.'', ''a {} face.'', ''a {} face.''] ''happy''
     = Inr [Num 1, Num 0]"
  "class_embedding toy_text_model
     [''big {} face.'', ''a {} face.'', ''a {} face.'', ''a {} face.''] ''sad''
     = Inr [Num 0, Num 1]"
  "class_embedding toy_text_model [''a {} face.'', ''no {} face.''] ''happy'' = Inr [NaN, NaN]"
  "class_embedding toy_text_model [''a {} face.'', ''no {} face.''] ''sad''
     = Inr [Num 0, Num 1]"
  "class_embedding toy_text_model [''a {} face.'', ''faint {} face.''] ''happy''
     = Inr [NaN, PInf]"
  "class_embedding toy_text_model [''a face.''] ''happy'' = Inr [Num 0, Num 1]"
  by (simp_all add: class_embedding_def toy_encode toy_lib Let_def upt_rec
      f32_consts f32_numeral f32_neg_numeral f32_tiny_consts norm_vals div_vals mean_vals
      tiny_pos)




lemma toy_matrix_slotless:
  "zeroshot_classifier toy_text_model [''happy''] [''a face.'']
     = Inr \<lparr> dim_rows = 2, dim_cols = 1, rows = [[Num 0], [Num 1]] \<rparr>"
  by (simp add: zeroshot_classifier_def toy_class_embedding toy_lib stack_dim1_def upt_rec)

lemma toy_format_more:
  "format_str toy_text_model ''slight {} face.'' ''happy'' = Inr ''slight happy face.''"
  "format_str toy_text_model ''one {} face.'' ''happy'' = Inr ''one happy face.''"
  "format_str toy_text_model ''a {} face.'' ''grim'' = Inr ''a grim face.''"
  by (simp_all add: toy_text_model_def)

lemma toy_encode_more:
  "encode_class toy_text_model
     [''a {} face.'', ''slight {} face.'', ''no {} face.'', ''one {} face.''] ''happy''
     = Inr [[Num 1, Num 0], [Num eps, Num 1], [Num (- 1), Num 0], [Num 0, Num 1]]"
  "encode_class toy_text_model
     [''a {} face.'', ''no {} face.'', ''slight {} face.'', ''one {} face.''] ''happy''
     = Inr [[Num 1, Num 0], [Num (- 1), Num 0], [Num eps, Num 1], [Num 0, Num 1]]"
  "encode_class toy_text_model
     [''a {} face.'', ''slight {} face.'', ''one {} face.'', ''no {} face.''] ''happy''
     = Inr [[Num 1, Num 0], [Num eps, Num 1], [Num 0, Num 1], [Num (- 1), Num 0]]"
  "encode_class toy_text_model [''a {} face.''] ''happy'' = Inr [[Num 1, Num 0]]"
  "encode_class toy_text_model [''a {} face.''] ''grim'' = Inr [[Num (- 1), Num 0]]"
  by (simp_all add: encode_class_def toy_format toy_format_more) (simp_all add: toy_text_model_def)

lemma norm_vals_more:
  "ieee_norm [Num eps, Num 1] = Num 1"
  "ieee_norm [Num 0, Num (1 / 2)] = Num (1 / 2)"
  "ieee_norm [Num (eps / 4), Num (1 / 2)] = Num (1 / 2)"
  by (simp_all add: ieee_simps f32_eps_consts f32_eps_rounded)

lemma div_vals_more:
  "fdiv (Num eps) (Num 1) = Num eps"
  "fdiv (Num (eps / 4)) (Num (1 / 2)) = Num (eps / 2)"
  using eps_pos by (simp_all add: ieee_simps f32_eps_consts)

lemma mean_vals_more:
  "ieee_mean [Num 1, Num eps, Num (- 1), Num 0] = Num 0"
  "ieee_mean [Num 1, Num (- 1), Num eps, Num 0] = Num (eps / 4)"
  "ieee_mean [Num 1, Num eps, Num 0, Num (- 1)] = Num 0"
  "ieee_mean [Num 0, Num 1, Num 0, Num 1] = Num (1 / 2)"
  "ieee_mean [Num 0, Num 0, Num 1, Num 1] = Num (1 / 2)"
  "ieee_mean [Num 0, Num 1, Num 1, Num 0] = Num (1 / 2)"
  "ieee_mean [Num (- 1)] = Num (- 1)"
  by (simp_all add: ieee_simps f32_eps_consts f32_eps_rounded)

lemma toy_class_embedding_more:
  "class_embedding toy_text_model
     [''a {} face.'', ''slight {} face.'', ''no {} face.'', ''one {} face.''] ''happy''
     = Inr [Num 0, Num 1]"
  "class_embedding toy_text_model
     [''a {} face.'', ''no {} face.'', ''slight {} face.'', ''one {} face.''] ''happy''
     = Inr [Num (eps / 2), Num 1]"
  "class_embedding toy_text_model [''a {} face.''] ''happy'' = Inr [Num 1, Num 0]"
  "class_embedding toy_text_model [''a {} face.''] ''grim'' = Inr [Num (- 1), Num 0]"
  by (simp_all add: class_embedding_def toy_encode_more toy_lib Let_def upt_rec
      f32_consts f32_numeral f32_neg_numeral f32_eps_consts eps_pos
      norm_vals div_vals mean_vals norm_vals_more div_vals_more mean_vals_more)

lemma toy_matrix_order:
  "zeroshot_classifier toy_text_model [''happy'']
     [''a {} face.'', ''slight {} face.'', ''no {} face.'', ''one {} face.'']
     = Inr \<lparr> dim_rows = 2, dim_cols = 1, rows = [[Num 0], [Num 1]] \<rparr>"
  "zeroshot_classifier toy_text_model [''happy'']
     [''a {} face.'', ''no {} face.'', ''slight {} face.'', ''one {} face.'']
     = Inr \<lparr> dim_rows = 2, dim_cols = 1, rows = [[Num (eps / 2)], [Num 1]] \<rparr>"
  by (simp_all add: zeroshot_classifier_def toy_class_embedding_more toy_lib stack_dim1_def upt_rec)


section \<open>C1: each column is the normalized mean of the normalized embeddings\<close>



section \<open>The frame classifier: helper facts\<close>









section \<open>C9: the final normalization has no guard against a zero norm\<close>




section \<open>The scores of a frame: helper facts\<close>


section \<open>C3: unit norm before scoring\<close>




section \<open>A frame on the matrix of two opposite labels: helper facts\<close>



section \<open>C2: the distribution of a frame\<close>




section \<open>C6: the order of the templates\<close>

text \<open>
  The example against C6 as stated: one label and four templates whose embeddings are
  (1, 0), (eps, 1), (-1, 0) and (0, 1). In this order the first entries add up to 0
  (1 + eps rounds to 1); with the second and third template exchanged they add up to
  eps. The two label embeddings differ in their first entry.
\<close>

theorem swapped_templates_change_embedding:
  "mset [''a {} face.'', ''no {} face.'', ''slight {} face.'', ''one {} face.'']
     = mset [''a {} face.'', ''slight {} face.'', ''no {} face.'', ''one {} face.''] \<and>
   zeroshot_classifier toy_text_model [''happy'']
     [''a {} face.'', ''slight {} face.'', ''no {} face.'', ''one {} face.'']
     = Inr \<lparr> dim_rows = 2, dim_cols = 1, rows = [[Num 0], [Num 1]] \<rparr> \<and>
   zeroshot_classifier toy_text_model [''happy'']
     [''a {} face.'', ''no {} face.'', ''slight {} face.'', ''one {} face.'']
     = Inr \<lparr> dim_rows = 2, dim_cols = 1, rows = [[Num (eps / 2)], [Num 1]] \<rparr> \<and>
   Num (eps / 2) \<noteq> Num 0"
  using eps_pos by (simp add: toy_matrix_order)

text \<open>
  C6, as amended. Permuting the templates permutes the raw embeddings that are averaged
  and changes nothing else: when the templates of a label are encoded, so are the
  permuted ones, to the same raw embeddings up to their order, and the label embedding
  is the same provided that, in every dimension, the mean that the tensor library
  computes over the normalized embeddings in the new order equals the one in the old
  order.
\<close>

theorem template_order_only_through_mean:
  assumes "mset templates' = mset templates"
    and "encode_class tm templates c = Inr raw"
  shows "\<exists>raw'. encode_class tm templates' c = Inr raw' \<and> mset raw' = mset raw \<and>
           ((\<forall>d<embed_dim tm.
               mean_of tm (map (\<lambda>row. map (\<lambda>x. ew_div tm x (row_norm tm row)) row ! d) raw')
                 = mean_of tm (map (\<lambda>row. map (\<lambda>x. ew_div tm x (row_norm tm row)) row ! d) raw))
            \<longrightarrow> class_embedding tm templates' c = class_embedding tm templates c)"
proof -
  from encode_class_permuted[OF assms] obtain raw' where
    raw': "encode_class tm templates' c = Inr raw'" and ms: "mset raw' = mset raw" by blast
  have "class_embedding tm templates' c = class_embedding tm templates c"
    if eq: "\<forall>d<embed_dim tm.
               mean_of tm (map (\<lambda>row. map (\<lambda>x. ew_div tm x (row_norm tm row)) row ! d) raw')
                 = mean_of tm (map (\<lambda>row. map (\<lambda>x. ew_div tm x (row_norm tm row)) row ! d) raw)"
  proof -
    have hm: "map (\<lambda>d. mean_of tm
                 (map (\<lambda>row. row ! d)
                    (map (\<lambda>row. map (\<lambda>x. ew_div tm x (row_norm tm row)) row) raw')))
            [0..<embed_dim tm]
          = map (\<lambda>d. mean_of tm
                 (map (\<lambda>row. row ! d)
                    (map (\<lambda>row. map (\<lambda>x. ew_div tm x (row_norm tm row)) row) raw)))
            [0..<embed_dim tm]"
      using eq by (intro map_cong[OF refl]) (simp add: comp_def)
    show ?thesis
      unfolding class_embedding_def raw' assms(2) sum.case Let_def hm ..
  qed
  with raw' ms show ?thesis by blast
qed

theorem template_order_only_through_mean_witness:
  "mset [''a {} face.'', ''slight {} face.'', ''one {} face.'', ''no {} face.'']
     = mset [''a {} face.'', ''slight {} face.'', ''no {} face.'', ''one {} face.''] \<and>
   encode_class toy_text_model
     [''a {} face.'', ''slight {} face.'', ''no {} face.'', ''one {} face.''] ''happy''
     = Inr [[Num 1, Num 0], [Num eps, Num 1], [Num (- 1), Num 0], [Num 0, Num 1]] \<and>
   encode_class toy_text_model
     [''a {} face.'', ''slight {} face.'', ''one {} face.'', ''no {} face.''] ''happy''
     = Inr [[Num 1, Num 0], [Num eps, Num 1], [Num 0, Num 1], [Num (- 1), Num 0]] \<and>
   list_all (\<lambda>d.
       mean_of toy_text_model
         (map (\<lambda>row. map (\<lambda>x. ew_div toy_text_model x (row_norm toy_text_model row)) row ! d)
            [[Num 1, Num 0], [Num eps, Num 1], [Num 0, Num 1], [Num (- 1), Num 0]])
       = mean_of toy_text_model
         (map (\<lambda>row. map (\<lambda>x. ew_div toy_text_model x (row_norm toy_text_model row)) row ! d)
            [[Num 1, Num 0], [Num eps, Num 1], [Num (- 1), Num 0], [Num 0, Num 1]]))
     [0..<embed_dim toy_text_model] \<and>
   class_embedding toy_text_model
     [''a {} face.'', ''slight {} face.'', ''one {} face.'', ''no {} face.''] ''happy''
     = Inr [Num 0, Num 1]"
proof -
  have p: "mset [''a {} face.'', ''slight {} face.'', ''one {} face.'', ''no {} face.'']
     = mset [''a {} face.'', ''slight {} face.'', ''no {} face.'', ''one {} face.'']"
    by simp
  have means: "\<forall>d<embed_dim toy_text_model.
       mean_of toy_text_model
         (map (\<lambda>row. map (\<lambda>x. ew_div toy_text_model x (row_norm toy_text_model row)) row ! d)
            [[Num 1, Num 0], [Num eps, Num 1], [Num 0, Num 1], [Num (- 1), Num 0]])
       = mean_of toy_text_model
         (map (\<lambda>row. map (\<lambda>x. ew_div toy_text_model x (row_norm toy_text_model row)) row ! d)
            [[Num 1, Num 0], [Num eps, Num 1], [Num (- 1), Num 0], [Num 0, Num 1]])"
    by (simp add: toy_lib less_Suc_eq numeral_2_eq_2 norm_vals div_vals norm_vals_more
        div_vals_more mean_vals mean_vals_more f32_consts f32_neg_numeral f32_eps_consts)
  then have la: "list_all (\<lambda>d.
       mean_of toy_text_model
         (map (\<lambda>row. map (\<lambda>x. ew_div toy_text_model x (row_norm toy_text_model row)) row ! d)
            [[Num 1, Num 0], [Num eps, Num 1], [Num 0, Num 1], [Num (- 1), Num 0]])
       = mean_of toy_text_model
         (map (\<lambda>row. map (\<lambda>x. ew_div toy_text_model x (row_norm toy_text_model row)) row ! d)
            [[Num 1, Num 0], [Num eps, Num 1], [Num (- 1), Num 0], [Num 0, Num 1]]))
     [0..<embed_dim toy_text_model]"
    by (simp add: list_all_iff)
  from template_order_only_through_mean[OF p toy_encode_more(1)] toy_encode_more(3) means
  have "class_embedding toy_text_model
          [''a {} face.'', ''slight {} face.'', ''one {} face.'', ''no {} face.''] ''happy''
        = class_embedding toy_text_model
          [''a {} face.'', ''slight {} face.'', ''no {} face.'', ''one {} face.''] ''happy''"
    by auto
  with toy_class_embedding_more(1)
  have c: "class_embedding toy_text_model
     [''a {} face.'', ''slight {} face.'', ''one {} face.'', ''no {} face.''] ''happy''
     = Inr [Num 0, Num 1]" by simp
  from p toy_encode_more(1) toy_encode_more(3) la c show ?thesis by blast
qed

section \<open>Rendering: helper facts\<close>

lemma format_from_second_slot:
  "plain_slots_only t \<Longrightarrow> (1 \<le> n \<and> 1 \<le> count_slots t) \<or> 2 \<le> count_slots t \<Longrightarrow>
     format_from n t arg = Some (Inl IndexError)"
proof (induction t arbitrary: n rule: count_slots.induct)
  case 1
  then show ?case by simp
next
  case (2 c)
  then show ?case by simp
next
  case (3 c d ds)
  show ?case
  proof (cases "c = CHR ''{''")
    case open_brace: True
    show ?thesis
    proof (cases "d = CHR ''{''")
      case True
      with open_brace 3 have "format_from n ds arg = Some (Inl IndexError)" by simp
      with open_brace True show ?thesis by simp
    next
      case not_esc: False
      with open_brace "3.prems"(1) have close: "d = CHR ''}''" and pl: "plain_slots_only ds"
        by simp_all
      show ?thesis
      proof (cases "1 \<le> n")
        case True
        with open_brace close show ?thesis by simp
      next
        case n0: False
        with open_brace close not_esc "3.prems"(2) have "1 \<le> count_slots ds" by simp
        with open_brace close not_esc pl "3.IH"(2)[of "Suc n"]
        have "format_from (Suc n) ds arg = Some (Inl IndexError)" by simp
        with open_brace close n0 show ?thesis by simp
      qed
    qed
  next
    case not_open: False
    show ?thesis
    proof (cases "c = CHR ''}''")
      case close: True
      with not_open "3.prems"(1) have dd: "d = CHR ''}''" and pl: "plain_slots_only ds"
        by simp_all
      with not_open close 3 have "format_from n ds arg = Some (Inl IndexError)" by simp
      with not_open close dd show ?thesis by simp
    next
      case False
      with not_open 3 have "format_from n (d # ds) arg = Some (Inl IndexError)" by simp
      with not_open False show ?thesis by simp
    qed
  qed
qed

lemma format_from_plain:
  "CHR ''{'' \<notin> set t \<Longrightarrow> CHR ''}'' \<notin> set t \<Longrightarrow> format_from n t arg = Some (Inr t)"
  by (induction t) auto

lemma plain_no_slots:
  "CHR ''{'' \<notin> set t \<Longrightarrow> count_slots t = 0"
  by (induction t rule: count_slots.induct) auto

lemma map_raise_identity:
  "\<forall>x\<in>set xs. f x = Inr x \<Longrightarrow> map_raise f xs = Inr xs"
  by (induction xs) simp_all

lemma toy_formats_like_python: "formats_like_python (format_str toy_text_model)"
  by (simp add: formats_like_python_def toy_text_model_def)

section \<open>C7: templates that do not have exactly one slot\<close>

text \<open>
  The example against C7 as stated: a template with no slot. It renders to itself and
  the builder returns a matrix.
\<close>

theorem slotless_template_accepted:
  "count_slots ''a face.'' = 0 \<and>
   format_str toy_text_model ''a face.'' ''happy'' = Inr ''a face.'' \<and>
   zeroshot_classifier toy_text_model [''happy''] [''a face.'']
     = Inr \<lparr> dim_rows = 2, dim_cols = 1, rows = [[Num 0], [Num 1]] \<rparr>"
  by (simp add: toy_format toy_matrix_slotless)

text \<open>
  C7, as amended. \<^verbatim>\<open>template.format(classname)\<close> is taken to be Python's on the
  templates \<open>format_from\<close> describes. When the list of labels is not empty and some template made
  of literal text, \<^verbatim>\<open>{{\<close>, \<^verbatim>\<open>}}\<close> and \<^verbatim>\<open>{}\<close> has two or more \<^verbatim>\<open>{}\<close> slots,
  rendering that template raises IndexError and the builder fails, whatever the tokenizer
  and the encoder are, with the failure of the first template that does not render for
  the first label: no matrix is produced. Templates without any brace have no slot and
  are not rejected: for every label each renders to itself, so the rendering step
  succeeds on a list of such templates.
\<close>

theorem builder_fails_on_second_slot:
  assumes py: "formats_like_python (format_str tm)"
  shows "(classnames \<noteq> [] \<and> t \<in> set templates \<and> plain_slots_only t \<and> 2 \<le> count_slots t \<longrightarrow>
            format_str tm t (hd classnames) = Inl IndexError \<and>
            (\<exists>e. map_raise (\<lambda>template. format_str tm template (hd classnames)) templates = Inl e \<and>
                 zeroshot_classifier tm classnames templates = Inl e \<and>
                 (\<forall>tok enc. zeroshot_classifier (tm\<lparr>tokenize := tok, encode_text := enc\<rparr>)
                               classnames templates = Inl e))) \<and>
         ((\<forall>s\<in>set templates. CHR ''{'' \<notin> set s \<and> CHR ''}'' \<notin> set s) \<longrightarrow>
            (\<forall>s\<in>set templates. count_slots s = 0) \<and>
            (\<forall>c. map_raise (\<lambda>template. format_str tm template c) templates = Inr templates))"
proof -
  have fails: "format_str tm t (hd classnames) = Inl IndexError \<and>
            (\<exists>e. map_raise (\<lambda>template. format_str tm template (hd classnames)) templates = Inl e \<and>
                 zeroshot_classifier tm classnames templates = Inl e \<and>
                 (\<forall>tok enc. zeroshot_classifier (tm\<lparr>tokenize := tok, encode_text := enc\<rparr>)
                               classnames templates = Inl e))"
    if ne: "classnames \<noteq> []" and t: "t \<in> set templates" and pl: "plain_slots_only t"
      and two: "2 \<le> count_slots t"
  proof -
    from ne obtain c0 cs where cs: "classnames = c0 # cs" by (cases classnames) auto
    have "format_from 0 t c0 = Some (Inl IndexError)"
      using pl two by (intro format_from_second_slot) simp_all
    with py have ft: "format_str tm t c0 = Inl IndexError"
      by (simp add: formats_like_python_def)
    with t obtain e where
      e: "map_raise (\<lambda>template. format_str tm template c0) templates = Inl e"
      using map_raise_fails[of t templates "\<lambda>template. format_str tm template c0" IndexError]
      by blast
    have "zeroshot_classifier (tm\<lparr>tokenize := tok, encode_text := enc\<rparr>) classnames templates
            = Inl e" for tok enc
      using e by (simp add: zeroshot_classifier_def class_embedding_def encode_class_def cs)
    moreover have "zeroshot_classifier tm classnames templates = Inl e"
      using e by (simp add: zeroshot_classifier_def class_embedding_def encode_class_def cs)
    ultimately show ?thesis using ft e by (simp add: cs)
  qed
  have plain: "(\<forall>s\<in>set templates. count_slots s = 0) \<and>
            (\<forall>c. map_raise (\<lambda>template. format_str tm template c) templates = Inr templates)"
    if br: "\<forall>s\<in>set templates. CHR ''{'' \<notin> set s \<and> CHR ''}'' \<notin> set s"
  proof -
    have "format_str tm s c = Inr s" if "s \<in> set templates" for s c
    proof -
      from br that have "format_from 0 s c = Some (Inr s)" by (simp add: format_from_plain)
      with py show ?thesis by (simp add: formats_like_python_def)
    qed
    then have "map_raise (\<lambda>template. format_str tm template c) templates = Inr templates" for c
      by (intro map_raise_identity) simp
    moreover have "\<forall>s\<in>set templates. count_slots s = 0"
      using br by (simp add: plain_no_slots)
    ultimately show ?thesis by simp
  qed
  from fails plain show ?thesis by blast
qed

theorem builder_fails_on_second_slot_witness:
  "formats_like_python (format_str toy_text_model) \<and>
   [''happy''] \<noteq> [] \<and> ''a {} {} face.'' \<in> set [''a {} face.'', ''a {} {} face.''] \<and>
   plain_slots_only ''a {} {} face.'' \<and> 2 \<le> count_slots ''a {} {} face.'' \<and>
   format_str toy_text_model ''a {} {} face.'' (hd [''happy'']) = Inl IndexError \<and>
   (\<exists>e. zeroshot_classifier toy_text_model [''happy''] [''a {} face.'', ''a {} {} face.'']
          = Inl e) \<and>
   list_all (\<lambda>s. CHR ''{'' \<notin> set s \<and> CHR ''}'' \<notin> set s) [''a face.'', ''a person.''] \<and>
   map_raise (\<lambda>template. format_str toy_text_model template ''sad'') [''a face.'', ''a person.'']
     = Inr [''a face.'', ''a person.'']"
proof -
  have h1: "[''happy''] \<noteq> []" by simp
  have h2: "''a {} {} face.'' \<in> set [''a {} face.'', ''a {} {} face.'']" by simp
  have h3: "plain_slots_only ''a {} {} face.''" by simp
  have h4: "2 \<le> count_slots ''a {} {} face.''" by simp
  have h5: "\<forall>s\<in>set [''a face.'', ''a person.'']. CHR ''{'' \<notin> set s \<and> CHR ''}'' \<notin> set s"
    by simp
  have la: "list_all (\<lambda>s. CHR ''{'' \<notin> set s \<and> CHR ''}'' \<notin> set s) [''a face.'', ''a person.'']"
    by simp
  note a = builder_fails_on_second_slot[OF toy_formats_like_python,
      of "[''happy'']" "''a {} {} face.''" "[''a {} face.'', ''a {} {} face.'']"]
  note b = builder_fails_on_second_slot[OF toy_formats_like_python,
      of _ _ "[''a face.'', ''a person.'']"]
  from a h1 h2 h3 h4
  have c: "format_str toy_text_model ''a {} {} face.'' (hd [''happy'']) = Inl IndexError"
    "\<exists>e. zeroshot_classifier toy_text_model [''happy''] [''a {} face.'', ''a {} {} face.'']
          = Inl e"
    by blast+
  from b h5
  have d: "map_raise (\<lambda>template. format_str toy_text_model template ''sad'')
             [''a face.'', ''a person.''] = Inr [''a face.'', ''a person.'']"
    by blast
  from toy_formats_like_python h1 h2 h3 h4 c la d show ?thesis by blast
qed

section \<open>The stream loops: helper facts\<close>

lemma webcam_iter_end:
  "cap_read env w = (None, w') \<Longrightarrow> webcam_iter env M cls w shown = Some (Inr (), shown, w')"
  by (subst webcam_iter.simps) simp

lemma video_iter_end:
  "cap_read env w = (None, w') \<Longrightarrow>
     video_iter env M cls w shown = Some (Inr (), shown, if cap_isOpened env w then w' else w)"
  by (subst video_iter.simps) simp

lemma webcam_body_encoder_fails:
  "encode_image env (to_input env (flip env frame)) = Inl e \<Longrightarrow>
     webcam_body env M cls frame = Inl e"
  by (simp add: webcam_body_def webcam_predict_def)

lemma video_body_encoder_fails:
  "encode_image env (to_input env frame) = Inl e \<Longrightarrow> video_body env M cls frame = Inl e"
  by (simp add: video_body_def video_predict_def)

lemma webcam_iter_raise:
  "cap_read env w = (Some frame, w') \<Longrightarrow> webcam_body env M cls frame = Inl e \<Longrightarrow>
     webcam_iter env M cls w shown = Some (Inl e, shown, w')"
  by (subst webcam_iter.simps) simp

lemma video_iter_raise:
  "cap_isOpened env w \<Longrightarrow> cap_read env w = (Some frame, w') \<Longrightarrow>
     video_body env M cls frame = Inl e \<Longrightarrow>
     video_iter env M cls w shown = Some (Inl e, shown, w')"
  by (subst video_iter.simps) simp

section \<open>C8: the end of the stream\<close>

text \<open>
  C8. When \<^verbatim>\<open>cap.read()\<close> answers that there is no frame, the loop exits by its
  \<^verbatim>\<open>break\<close>: it ends normally, with the frames shown so far and nothing more. Asked at
  the very first read, both cells end normally with no frame shown, whatever the image
  encoder and the top-1 selection are (they are not called); the capture is released.
\<close>

theorem end_of_stream_exits_cleanly:
  assumes "cap_read env w = (None, w')"
  shows "webcam_iter env M cls w shown = Some (Inr (), shown, w') \<and>
         video_iter env M cls w shown
           = Some (Inr (), shown, if cap_isOpened env w then w' else w) \<and>
         webcam_loop (env\<lparr>encode_image := enc, topk1 := tk\<rparr>) M cls w
           = Some (Inr (), [], cap_release env w') \<and>
         video_loop (env\<lparr>encode_image := enc, topk1 := tk\<rparr>) M cls w
           = Some (Inr (), [], cap_release env (if cap_isOpened env w then w' else w))"
proof -
  let ?env = "env\<lparr>encode_image := enc, topk1 := tk\<rparr>"
  have r: "cap_read ?env w = (None, w')" using assms by simp
  have "webcam_iter ?env M cls w [] = Some (Inr (), [], w')"
    using r by (rule webcam_iter_end)
  then have a: "webcam_loop ?env M cls w = Some (Inr (), [], cap_release env w')"
    by (simp add: webcam_loop_def)
  have "video_iter ?env M cls w [] = Some (Inr (), [], if cap_isOpened ?env w then w' else w)"
    using r by (rule video_iter_end)
  then have b: "video_loop ?env M cls w
                  = Some (Inr (), [], cap_release env (if cap_isOpened env w then w' else w))"
    by (simp add: video_loop_def)
  from a b webcam_iter_end[OF assms] video_iter_end[OF assms] show ?thesis by simp
qed

theorem end_of_stream_exits_cleanly_witness:
  "cap_read toy_video_env ([], True) = (None, ([], True)) \<and>
   webcam_loop (toy_video_env\<lparr>encode_image := (\<lambda>x. Inl RuntimeError),
                              topk1 := (\<lambda>xs. Inl RuntimeError)\<rparr>)
       \<lparr> dim_rows = 2, dim_cols = 2, rows = [[Num 1, Num 0], [Num 0, Num 1]] \<rparr>
       [''happy'', ''sad''] ([], True)
     = Some (Inr (), [], ([], False)) \<and>
   video_loop (toy_video_env\<lparr>encode_image := (\<lambda>x. Inl RuntimeError),
                             topk1 := (\<lambda>xs. Inl RuntimeError)\<rparr>)
       \<lparr> dim_rows = 2, dim_cols = 2, rows = [[Num 1, Num 0], [Num 0, Num 1]] \<rparr>
       [''happy'', ''sad''] ([], True)
     = Some (Inr (), [], ([], False))"
proof -
  have h: "cap_read toy_video_env ([], True) = (None, ([], True))"
    by (simp add: toy_video_env_def)
  have r: "cap_release toy_video_env ([], True) = ([], False)"
    "cap_isOpened toy_video_env ([], True)"
    by (simp_all add: toy_video_env_def)
  from end_of_stream_exits_cleanly[OF h,
      of "\<lparr> dim_rows = 2, dim_cols = 2, rows = [[Num 1, Num 0], [Num 0, Num 1]] \<rparr>"
      "[''happy'', ''sad'']" "[]" "\<lambda>x. Inl RuntimeError" "\<lambda>xs. Inl RuntimeError"] h r
  show ?thesis by simp
qed

section \<open>C4: a frame whose encoding fails\<close>

text \<open>
  The example against C4 as stated: a webcam stream of two frames, the first of which
  fails to encode. The cell ends with the failure, no frame shown, and the second frame
  is still unread when the capture is released.
\<close>

theorem encoder_failure_stops_webcam_loop:
  "webcam_loop toy_video_env
       \<lparr> dim_rows = 2, dim_cols = 2, rows = [[Num 1, Num 0], [Num 0, Num 1]] \<rparr>
       [''happy'', ''sad''] ([1, 2], True)
     = Some (Inl RuntimeError, [], ([2], False))"
proof -
  have r: "cap_read toy_video_env ([1, 2], True) = (Some 1, ([2], True))"
    by (simp add: toy_video_env_def)
  have e: "encode_image toy_video_env (to_input toy_video_env (flip toy_video_env 1))
             = Inl RuntimeError"
    by (simp add: toy_video_env_def)
  have "webcam_iter toy_video_env
          \<lparr> dim_rows = 2, dim_cols = 2, rows = [[Num 1, Num 0], [Num 0, Num 1]] \<rparr>
          [''happy'', ''sad''] ([1, 2], True) [] = Some (Inl RuntimeError, [], ([2], True))"
    using r webcam_body_encoder_fails[OF e] by (rule webcam_iter_raise)
  then show ?thesis by (simp add: webcam_loop_def toy_video_env_def)
qed

text \<open>
  C4, as amended. Neither loop catches the exception of the image encoder (the
  \<^verbatim>\<open>try\<close> has a \<^verbatim>\<open>finally\<close> and no \<^verbatim>\<open>except\<close>). When the encoding of a frame
  fails, the loop ends at that frame with that failure: the frames shown before stay
  shown, the failed frame is not shown, no further frame is read, nothing is retried,
  and the capture is released.
\<close>

theorem encoder_failure_ends_loop:
  assumes "cap_read env w = (Some frame, w')"
  shows "(encode_image env (to_input env (flip env frame)) = Inl e \<longrightarrow>
            webcam_iter env M cls w shown = Some (Inl e, shown, w') \<and>
            webcam_loop env M cls w = Some (Inl e, [], cap_release env w')) \<and>
         (cap_isOpened env w \<and> encode_image env (to_input env frame) = Inl e \<longrightarrow>
            video_iter env M cls w shown = Some (Inl e, shown, w') \<and>
            video_loop env M cls w = Some (Inl e, [], cap_release env w'))"
proof -
  have a: "webcam_iter env M cls w s = Some (Inl e, s, w')"
    if "encode_image env (to_input env (flip env frame)) = Inl e" for s
    using assms webcam_body_encoder_fails[OF that] by (rule webcam_iter_raise)
  have b: "video_iter env M cls w s = Some (Inl e, s, w')"
    if "cap_isOpened env w" "encode_image env (to_input env frame) = Inl e" for s
    using that(1) assms video_body_encoder_fails[OF that(2)] by (rule video_iter_raise)
  show ?thesis using a b by (simp add: webcam_loop_def video_loop_def)
qed

theorem encoder_failure_ends_loop_witness:
  "cap_read toy_video_env ([0, 2], True) = (Some 0, ([2], True)) \<and>
   cap_isOpened toy_video_env ([0, 2], True) \<and>
   encode_image toy_video_env (to_input toy_video_env 0) = Inl RuntimeError \<and>
   video_loop toy_video_env
       \<lparr> dim_rows = 2, dim_cols = 2, rows = [[Num 1, Num 0], [Num 0, Num 1]] \<rparr>
       [''happy'', ''sad''] ([0, 2], True)
     = Some (Inl RuntimeError, [], ([2], False)) \<and>
   cap_read toy_video_env ([1, 2], True) = (Some 1, ([2], True)) \<and>
   encode_image toy_video_env (to_input toy_video_env (flip toy_video_env 1)) = Inl RuntimeError \<and>
   webcam_iter toy_video_env
       \<lparr> dim_rows = 2, dim_cols = 2, rows = [[Num 1, Num 0], [Num 0, Num 1]] \<rparr>
       [''happy'', ''sad''] ([1, 2], True) []
     = Some (Inl RuntimeError, [], ([2], True))"
proof -
  have r0: "cap_read toy_video_env ([0, 2], True) = (Some 0, ([2], True))"
    by (simp add: toy_video_env_def)
  have o: "cap_isOpened toy_video_env ([0, 2], True)" by (simp add: toy_video_env_def)
  have e0: "encode_image toy_video_env (to_input toy_video_env 0) = Inl RuntimeError"
    by (simp add: toy_video_env_def)
  have rel: "cap_release toy_video_env ([2], True) = ([2], False)"
    by (simp add: toy_video_env_def)
  have r1: "cap_read toy_video_env ([1, 2], True) = (Some 1, ([2], True))"
    by (simp add: toy_video_env_def)
  have e1: "encode_image toy_video_env (to_input toy_video_env (flip toy_video_env 1))
              = Inl RuntimeError"
    by (simp add: toy_video_env_def)
  have v: "video_loop toy_video_env
       \<lparr> dim_rows = 2, dim_cols = 2, rows = [[Num 1, Num 0], [Num 0, Num 1]] \<rparr>
       [''happy'', ''sad''] ([0, 2], True) = Some (Inl RuntimeError, [], ([2], False))"
    using encoder_failure_ends_loop[OF r0, of RuntimeError] o e0 rel by simp
  have w: "webcam_iter toy_video_env
       \<lparr> dim_rows = 2, dim_cols = 2, rows = [[Num 1, Num 0], [Num 0, Num 1]] \<rparr>
       [''happy'', ''sad''] ([1, 2], True) [] = Some (Inl RuntimeError, [], ([2], True))"
    using encoder_failure_ends_loop[OF r1, of RuntimeError] e1 by simp
  from r0 o e0 v r1 e1 w show ?thesis by blast
qed

section \<open>C10: one classifier, two loops, one flip\<close>

text \<open>
  C10. The prediction blocks of the two cells are the same function of the encoder
  input and the matrix. One iteration of the webcam loop is one iteration of the
  prerecorded-video loop on the horizontally flipped frame: the image encoded, and the
  frame drawn on, is the flipped one in the webcam loop and the raw one in the other.
\<close>

theorem loops_share_classifier_webcam_flips:
  "webcam_predict env M x = video_predict env M x \<and>
   webcam_body env M cls frame = video_body env M cls (flip env frame)"
proof -
  have same: "webcam_predict env M y = video_predict env M y" for y
    unfolding webcam_predict_def video_predict_def ..
  have "webcam_body env M cls frame
          = (case webcam_predict env M (to_input env (flip env frame)) of
               Inl e \<Rightarrow> Inl e
             | Inr (probabilities, top_prob, top_label) \<Rightarrow>
                 if top_label < length cls then Inr (flip env frame, cls ! top_label, top_prob)
                 else Inl IndexError)"
    by (simp add: webcam_body_def Let_def)
  also have "\<dots> = video_body env M cls (flip env frame)"
    by (simp add: video_body_def Let_def same)
  finally show ?thesis using same by simp
qed

theorem loops_share_classifier_webcam_flips_witness:
  "flip toy_video_env 1 = 0 \<and>
   webcam_body toy_video_env
       \<lparr> dim_rows = 2, dim_cols = 2, rows = [[Num 1, Num 0], [Num 0, Num 1]] \<rparr>
       [''happy'', ''sad''] 1
     = video_body toy_video_env
       \<lparr> dim_rows = 2, dim_cols = 2, rows = [[Num 1, Num 0], [Num 0, Num 1]] \<rparr>
       [''happy'', ''sad''] 0 \<and>
   video_body toy_video_env
       \<lparr> dim_rows = 2, dim_cols = 2, rows = [[Num 1, Num 0], [Num 0, Num 1]] \<rparr>
       [''happy'', ''sad''] 0
     = Inl RuntimeError"
proof -
  have f: "flip toy_video_env 1 = 0" by (simp add: toy_video_env_def)
  have e: "encode_image toy_video_env (to_input toy_video_env 0) = Inl RuntimeError"
    by (simp add: toy_video_env_def)
  from loops_share_classifier_webcam_flips[of toy_video_env
      "\<lparr> dim_rows = 2, dim_cols = 2, rows = [[Num 1, Num 0], [Num 0, Num 1]] \<rparr>" _
      "[''happy'', ''sad'']" 1] f
    video_body_encoder_fails[OF e]
  show ?thesis by simp
qed

section \<open>Ties in the top-1 selection\<close>

text \<open>
  The notebook leaves the choice among equal maxima to \<^verbatim>\<open>topk(1)\<close>. What its
  documentation promises does not fix the choice: the first and the last maximum both
  satisfy it, and they differ on a row with two equal maximal entries.
\<close>

lemma is_num_conv: "is_num x \<longleftrightarrow> (\<exists>a. x = Num a)"
  by (cases x) simp_all

lemma first_max_selects:
  "xs \<noteq> [] \<Longrightarrow> \<forall>x\<in>set xs. is_num x \<Longrightarrow>
     snd (first_max xs) < length xs \<and> xs ! snd (first_max xs) = fst (first_max xs) \<and>
     is_num (fst (first_max xs)) \<and> (\<forall>x\<in>set xs. fle x (fst (first_max xs)))"
proof (induction xs rule: first_max.induct)
  case 1
  then show ?case by simp
next
  case (2 x)
  then show ?case by (auto simp: is_num_conv)
next
  case (3 x y ys)
  obtain p k where pk: "first_max (y # ys) = (p, k)" by (cases "first_max (y # ys)")
  from 3 pk have ih: "k < length (y # ys)" "(y # ys) ! k = p" "is_num p"
      "\<forall>z\<in>set (y # ys). fle z p" by auto
  from "3.prems" obtain a where a: "x = Num a" by (auto simp: is_num_conv)
  from ih(3) obtain b where b: "p = Num b" by (auto simp: is_num_conv)
  show ?case
  proof (cases "fle p x")
    case True
    have "fle z x" if "z \<in> set (y # ys)" for z
    proof -
      from that ih(4) have "fle z p" by blast
      moreover from that "3.prems" obtain c where "z = Num c" by (auto simp: is_num_conv)
      ultimately show ?thesis using True a b by simp
    qed
    with True pk a show ?thesis by auto
  next
    case False
    then have "fle x p" using a b by simp
    with False pk ih show ?thesis by auto
  qed
qed

lemma last_max_selects:
  "xs \<noteq> [] \<Longrightarrow> \<forall>x\<in>set xs. is_num x \<Longrightarrow>
     snd (last_max xs) < length xs \<and> xs ! snd (last_max xs) = fst (last_max xs) \<and>
     is_num (fst (last_max xs)) \<and> (\<forall>x\<in>set xs. fle x (fst (last_max xs)))"
proof (induction xs rule: last_max.induct)
  case 1
  then show ?case by simp
next
  case (2 x)
  then show ?case by (auto simp: is_num_conv)
next
  case (3 x y ys)
  obtain p k where pk: "last_max (y # ys) = (p, k)" by (cases "last_max (y # ys)")
  from 3 pk have ih: "k < length (y # ys)" "(y # ys) ! k = p" "is_num p"
      "\<forall>z\<in>set (y # ys). fle z p" by auto
  from "3.prems" obtain a where a: "x = Num a" by (auto simp: is_num_conv)
  from ih(3) obtain b where b: "p = Num b" by (auto simp: is_num_conv)
  show ?case
  proof (cases "fle x p")
    case True
    with pk ih show ?thesis by auto
  next
    case False
    have "fle z x" if "z \<in> set (y # ys)" for z
    proof -
      from that ih(4) have "fle z p" by blast
      moreover from that "3.prems" obtain c where "z = Num c" by (auto simp: is_num_conv)
      ultimately show ?thesis using False a b by simp
    qed
    with False pk a show ?thesis by auto
  qed
qed

lemma tie_not_fixed_by_selection_contract:
  "topk1_selects_max (\<lambda>xs. if xs = [] then Inl RuntimeError else Inr (first_max xs)) \<and>
   topk1_selects_max (\<lambda>xs. if xs = [] then Inl RuntimeError else Inr (last_max xs)) \<and>
   first_max [Num (1 / 2), Num (1 / 2)] = (Num (1 / 2), 0) \<and>
   last_max [Num (1 / 2), Num (1 / 2)] = (Num (1 / 2), 1)"
proof -
  have "topk1_selects_max (\<lambda>xs. if xs = [] then Inl RuntimeError else Inr (first_max xs))"
    unfolding topk1_selects_max_def
  proof (intro allI impI)
    fix xs :: "fval list"
    assume "xs \<noteq> [] \<and> (\<forall>x\<in>set xs. is_num x)"
    then have ne: "xs \<noteq> []" and num: "\<forall>x\<in>set xs. is_num x" by simp_all
    from first_max_selects[OF ne num] ne
    show "\<exists>p k. (if xs = [] then Inl RuntimeError else Inr (first_max xs)) = Inr (p, k) \<and>
            k < length xs \<and> xs ! k = p \<and> (\<forall>x\<in>set xs. fle x p)"
      by (cases "first_max xs") simp
  qed
  moreover
  have "topk1_selects_max (\<lambda>xs. if xs = [] then Inl RuntimeError else Inr (last_max xs))"
    unfolding topk1_selects_max_def
  proof (intro allI impI)
    fix xs :: "fval list"
    assume "xs \<noteq> [] \<and> (\<forall>x\<in>set xs. is_num x)"
    then have ne: "xs \<noteq> []" and num: "\<forall>x\<in>set xs. is_num x" by simp_all
    from last_max_selects[OF ne num] ne
    show "\<exists>p k. (if xs = [] then Inl RuntimeError else Inr (last_max xs)) = Inr (p, k) \<and>
            k < length xs \<and> xs ! k = p \<and> (\<forall>x\<in>set xs. fle x p)"
      by (cases "last_max xs") simp
  qed
  ultimately show ?thesis by simp
qed

end
